theory Spec2Isabelle
  imports Main "HOL-Library.Sublist"
begin

section \<open>JavaScript values used by geminiService.ts\<close>

text \<open>
  The module is glue around three things it does not define: the process environment,
  the \<^verbatim>\<open>@google/genai\<close> client and the runtime's \<^verbatim>\<open>JSON.parse\<close>. They are
  parameters of the model (the record \<open>runtime\<close> below); the three exported operations
  and \<^verbatim>\<open>getApiKey\<close> are translated statement by statement. Every operation returns
  the list of effects it performed, in order, together with its outcome: \<open>Inl\<close> is a
  thrown value (a rejected promise for the two \<^verbatim>\<open>async\<close> functions), \<open>Inr\<close> the
  returned value.
\<close>

text \<open>
  A thrown value, as the \<^verbatim>\<open>catch (error: any)\<close> blocks read it: only its
  \<^verbatim>\<open>message\<close> property is inspected. \<open>None\<close> is a message that is
  \<^verbatim>\<open>undefined\<close>. The thrown value is taken to be an object (the client library and
  \<^verbatim>\<open>JSON.parse\<close> throw \<^verbatim>\<open>Error\<close> instances).
\<close>

datatype js_error = JsError (error_name: string) (error_message: "string option")

definition new_Error :: "string \<Rightarrow> js_error" where
  "new_Error m = JsError ''Error'' (Some m)"

text \<open>
  Truthiness of a value of type \<^verbatim>\<open>string | undefined\<close>: \<^verbatim>\<open>undefined\<close> and the
  empty string are falsy. \<open>or_default v d\<close> is \<^verbatim>\<open>v || d\<close>.
\<close>

definition truthy :: "string option \<Rightarrow> bool" where
  "truthy v = (case v of None \<Rightarrow> False | Some s \<Rightarrow> s \<noteq> [])"

definition or_default :: "string option \<Rightarrow> string \<Rightarrow> string" where
  "or_default v d = (if truthy v then (case v of None \<Rightarrow> d | Some s \<Rightarrow> s) else d)"

definition show_bool :: "bool \<Rightarrow> string" where
  "show_bool b = (if b then ''true'' else ''false'')"

definition LF :: char where
  "LF = CHR 0x0A"

fun join_lines :: "string list \<Rightarrow> string" where
  "join_lines [] = []"
| "join_lines [l] = l"
| "join_lines (l # ls) = l @ LF # join_lines ls"

text \<open>
  A JSON value, the result of \<^verbatim>\<open>JSON.parse\<close>. A JavaScript string is a sequence of
  UTF-16 code units; a number is kept as it is written (its conversion to a double is not
  modelled); an object keeps its members in the order of the text.
\<close>

type_synonym js_string = "nat list"

definition units :: "string \<Rightarrow> js_string" where
  "units s = map of_char s"

datatype json =
    JNull
  | JBool bool
  | JNumber string
  | JString js_string
  | JArray "json list"
  | JObject "(js_string \<times> json) list"

section \<open>Requests\<close>

text \<open>
  The \<^verbatim>\<open>responseSchema\<close> object: \<^verbatim>\<open>Type.STRING\<close>, \<^verbatim>\<open>Type.ARRAY\<close> with its
  \<^verbatim>\<open>items\<close>, \<^verbatim>\<open>Type.OBJECT\<close> with its \<^verbatim>\<open>properties\<close> and \<^verbatim>\<open>required\<close>.
\<close>

datatype schema =
    TypeSTRING
  | TypeARRAY schema
  | TypeOBJECT "(string \<times> schema) list" "string list"

fun properties :: "schema \<Rightarrow> (string \<times> schema) list" where
  "properties (TypeOBJECT ps rs) = ps"
| "properties TypeSTRING = []"
| "properties (TypeARRAY s) = []"

fun required :: "schema \<Rightarrow> string list" where
  "required (TypeOBJECT ps rs) = rs"
| "required TypeSTRING = []"
| "required (TypeARRAY s) = []"

fun items :: "schema \<Rightarrow> schema option" where
  "items (TypeARRAY s) = Some s"
| "items TypeSTRING = None"
| "items (TypeOBJECT ps rs) = None"

datatype part = TextPart string | InlineData string string

datatype content_union = ContentList "part list list" | SingleContent "part list"

record generation_config =
  systemInstruction :: string
  responseMimeType :: "string option"
  responseSchema :: "schema option"

record request =
  model :: string
  contents :: content_union
  config :: generation_config

record response =
  response_text :: "string option"

record chat_params =
  chat_model :: string
  chat_systemInstruction :: string

text \<open>
  \<^verbatim>\<open>UserPreferences\<close> is declared in \<^verbatim>\<open>./types\<close>, which is not among the sources.
  The fields are the ones \<^verbatim>\<open>generateStudyNotes\<close> reads; each text field stands for the
  text its interpolation \<^verbatim>\<open>${...}\<close> produces, the three flags are booleans and
  \<^verbatim>\<open>university\<close> is optional.
\<close>

record user_preferences =
  subject :: string
  semester :: string
  topic :: string
  length_pref :: string
  university :: "string option"
  includeDiagrams :: bool
  includeMnemonics :: bool
  includeClinicalCorrelation :: bool

definition SYSTEM_PROMPT :: string where
  "SYSTEM_PROMPT = join_lines
    ['''',
     ''  You are an expert B.Pharm professor and academic mentor specializing in Indian PCI (Pharmacy Council of India) syllabus.'',
     ''  Your task is to generate highly structured, exam-oriented study notes for first-year pharmacy students.'',
     ''  '',
     ''  CRITICAL RULES:'',
     ''  1. Language: Simple, academic, and professional.'',
     ''  2. Context: Suitable for 2, 5, and 10 marks university questions.'',
     ''  3. Content: Must be technically accurate and include pharmacy-specific examples.'',
     ''  4. Mnemonics: If requested, provide catchy and easy-to-remember mnemonics for classifications or lists.'',
     ''  5. Diagrams: Provide clear, text-based descriptions of labeled diagrams that a student can draw.'',
     ''  '',
     ''  You must return the response as a valid JSON object matching the provided schema exactly.'',
     '''']"

definition userPrompt :: "user_preferences \<Rightarrow> string" where
  "userPrompt prefs = join_lines
    ['''',
     ''    Subject: '' @ subject prefs,
     ''    Semester: '' @ semester prefs,
     ''    Topic: '' @ topic prefs,
     ''    Level of Detail: '' @ length_pref prefs,
     ''    Target University: '' @ or_default (university prefs) ''Any PCI-affiliated University'',
     ''    '',
     ''    Specific Requirements:'',
     ''    - Include Diagram Description: '' @ show_bool (includeDiagrams prefs),
     ''    - Include Mnemonics: '' @ show_bool (includeMnemonics prefs),
     ''    - Include Clinical/Practical Correlation: '' @ show_bool (includeClinicalCorrelation prefs),
     ''  '']"

definition string_array :: schema where
  "string_array = TypeARRAY TypeSTRING"

definition classification_item :: schema where
  "classification_item =
     TypeOBJECT [(''type'', TypeSTRING), (''explanation'', TypeSTRING)] [''type'', ''explanation'']"

definition examPoints_item :: schema where
  "examPoints_item =
     TypeOBJECT [(''point'', TypeSTRING), (''mnemonic'', TypeSTRING)] [''point'']"

definition notes_schema :: schema where
  "notes_schema = TypeOBJECT
     [(''introduction'', TypeSTRING),
      (''definition'', TypeSTRING),
      (''classification'', TypeARRAY classification_item),
      (''detailedExplanation'', string_array),
      (''examples'', string_array),
      (''diagramDescription'', TypeSTRING),
      (''examPoints'', TypeARRAY examPoints_item),
      (''shortAnswerQuestions'', string_array),
      (''longAnswerQuestions'', string_array),
      (''pyqs'', string_array),
      (''vivaQuestions'', string_array),
      (''clinicalCorrelation'', TypeSTRING)]
     [''introduction'', ''detailedExplanation'', ''examples'', ''examPoints'',
      ''shortAnswerQuestions'', ''longAnswerQuestions'', ''pyqs'', ''vivaQuestions'']"

definition notes_request :: "user_preferences \<Rightarrow> request" where
  "notes_request prefs =
     \<lparr>model = ''gemini-3-pro-preview'',
      contents = ContentList [[TextPart (userPrompt prefs)]],
      config = \<lparr>systemInstruction = SYSTEM_PROMPT,
                responseMimeType = Some ''application/json'',
                responseSchema = Some notes_schema\<rparr>\<rparr>"

definition image_prompt :: string where
  "image_prompt = join_lines
    ['''',
     ''    Analyze this pharmacy academic image. IDENTIFY correctly and PROVIDE academic context.'',
     ''    '',
     ''    Structure your response as follows:'',
     ''    # Identification'',
     ''    [Clear name of what is shown]'',
     '''',
     ''    # Academic Context'',
     ''    [Which B.Pharm subject/semester does this belong to?]'',
     '''',
     ''    # Exam Focus'',
     ''    [Important points for a 5-mark answer]'',
     '''',
     ''    # Practical & Safety'',
     ''    [Laboratory precautions or clinical relevance]'',
     '''',
     ''    # Correction Note (if applicable)'',
     ''    [Point out any spelling/factual errors in the image if it's a student's note]'',
     ''    '',
     ''    Use markdown format with # for headings (they will be cleaned by UI) and * bullet points. Be professional and highly detailed.'',
     ''  '']"

definition image_request :: "string \<Rightarrow> string \<Rightarrow> request" where
  "image_request base64Image mimeType =
     \<lparr>model = ''gemini-3-pro-preview'',
      contents = SingleContent [InlineData base64Image mimeType, TextPart image_prompt],
      config = \<lparr>systemInstruction = ''You are an expert Pharmacy Professor. Your analysis is used by B.Pharm students for exam preparation. Be technically rigorous and structured.'',
                responseMimeType = None,
                responseSchema = None\<rparr>\<rparr>"

definition chat_request :: chat_params where
  "chat_request =
     \<lparr>chat_model = ''gemini-3-pro-preview'',
      chat_systemInstruction = ''You are 'PharmAssistant', a virtual mentor for B.Pharm students. Provide helpful, exam-focused answers. Always advise consulting a professional for health issues.''\<rparr>"

section \<open>Effects and the runtime\<close>

text \<open>
  What an operation does that its caller or a test can observe, in the order it happens:
  the two console calls, the construction of a client, a \<^verbatim>\<open>generateContent\<close> request
  (the network call), a call of \<^verbatim>\<open>JSON.parse\<close> and a call of \<^verbatim>\<open>chats.create\<close>.
\<close>

datatype event =
    ConsoleWarn string
  | ConsoleError string js_error
  | NewGoogleGenAI string
  | GenerateContent request
  | JSONParse string
  | ChatsCreate chat_params

text \<open>
  The surroundings of one call. \<open>env_API_KEY\<close> is \<^verbatim>\<open>process.env.API_KEY\<close>;
  the constructor, \<^verbatim>\<open>ai.models.generateContent\<close>, \<^verbatim>\<open>ai.chats.create\<close> and
  \<^verbatim>\<open>JSON.parse\<close> may each throw. \<open>'c\<close> is the client object, \<open>'h\<close> the chat session.
\<close>

record ('c, 'h) runtime =
  env_API_KEY :: "string option"
  GoogleGenAI :: "string \<Rightarrow> js_error + 'c"
  models_generateContent :: "'c \<Rightarrow> request \<Rightarrow> js_error + response"
  chats_create :: "'c \<Rightarrow> chat_params \<Rightarrow> js_error + 'h"
  JSON_parse :: "string \<Rightarrow> js_error + json"

section \<open>The operations\<close>

definition getApiKey :: "('c, 'h) runtime \<Rightarrow> event list \<times> string" where
  "getApiKey rt =
     (let key = env_API_KEY rt in
      ((if \<not> truthy key
        then [ConsoleWarn ''API Key is missing. Ensure process.env.API_KEY is configured.'']
        else []),
       or_default key ''''))"

text \<open>The body of the \<^verbatim>\<open>try\<close> block of \<^verbatim>\<open>generateStudyNotes\<close>.\<close>

definition notes_try :: "('c, 'h) runtime \<Rightarrow> 'c \<Rightarrow> user_preferences \<Rightarrow> event list \<times> (js_error + json)" where
  "notes_try rt ai prefs =
     (let req = notes_request prefs in
      case models_generateContent rt ai req of
        Inl err \<Rightarrow> ([GenerateContent req], Inl err)
      | Inr response \<Rightarrow>
          (case response_text response of
             None \<Rightarrow>
               ([GenerateContent req],
                Inl (new_Error ''The AI returned an empty response. Please try again.''))
           | Some text \<Rightarrow>
               if text = []
               then ([GenerateContent req],
                     Inl (new_Error ''The AI returned an empty response. Please try again.''))
               else (case JSON_parse rt text of
                       Inl err \<Rightarrow> ([GenerateContent req, JSONParse text], Inl err)
                     | Inr notes \<Rightarrow> ([GenerateContent req, JSONParse text], Inr notes))))"

text \<open>Its \<^verbatim>\<open>catch\<close> block: log the error, throw a new one with its message or the fallback.\<close>

definition notes_catch :: "event list \<times> (js_error + json) \<Rightarrow> event list \<times> (js_error + json)" where
  "notes_catch r =
     (case r of
        (evs, Inl error) \<Rightarrow>
          (evs @ [ConsoleError ''Gemini API Error:'' error],
           Inl (new_Error (or_default (error_message error) ''Could not generate academic notes.'')))
      | (evs, Inr notes) \<Rightarrow> (evs, Inr notes))"

definition generateStudyNotes :: "('c, 'h) runtime \<Rightarrow> user_preferences \<Rightarrow> event list \<times> (js_error + json)" where
  "generateStudyNotes rt prefs =
     (case getApiKey rt of
        (warned, key) \<Rightarrow>
          (case GoogleGenAI rt key of
             Inl err \<Rightarrow> (warned @ [NewGoogleGenAI key], Inl err)
           | Inr ai \<Rightarrow>
               (case notes_catch (notes_try rt ai prefs) of
                  (evs, r) \<Rightarrow> (warned @ NewGoogleGenAI key # evs, r))))"

definition image_try :: "('c, 'h) runtime \<Rightarrow> 'c \<Rightarrow> string \<Rightarrow> string \<Rightarrow> event list \<times> (js_error + string)" where
  "image_try rt ai base64Image mimeType =
     (let req = image_request base64Image mimeType in
      case models_generateContent rt ai req of
        Inl err \<Rightarrow> ([GenerateContent req], Inl err)
      | Inr response \<Rightarrow>
          ([GenerateContent req],
           Inr (or_default (response_text response) ''Analysis unavailable for this image.'')))"

definition image_catch :: "event list \<times> (js_error + string) \<Rightarrow> event list \<times> (js_error + string)" where
  "image_catch r =
     (case r of
        (evs, Inl error) \<Rightarrow>
          (evs @ [ConsoleError ''Image Analysis Error:'' error],
           Inl (new_Error ''Failed to process image lab analysis.''))
      | (evs, Inr analysis) \<Rightarrow> (evs, Inr analysis))"

definition analyzePharmacyImage :: "('c, 'h) runtime \<Rightarrow> string \<Rightarrow> string \<Rightarrow> event list \<times> (js_error + string)" where
  "analyzePharmacyImage rt base64Image mimeType =
     (case getApiKey rt of
        (warned, key) \<Rightarrow>
          (case GoogleGenAI rt key of
             Inl err \<Rightarrow> (warned @ [NewGoogleGenAI key], Inl err)
           | Inr ai \<Rightarrow>
               (case image_catch (image_try rt ai base64Image mimeType) of
                  (evs, r) \<Rightarrow> (warned @ NewGoogleGenAI key # evs, r))))"

definition createPharmacyChatSession :: "('c, 'h) runtime \<Rightarrow> event list \<times> (js_error + 'h)" where
  "createPharmacyChatSession rt =
     (case getApiKey rt of
        (warned, key) \<Rightarrow>
          (case GoogleGenAI rt key of
             Inl err \<Rightarrow> (warned @ [NewGoogleGenAI key], Inl err)
           | Inr ai \<Rightarrow>
               (warned @ [NewGoogleGenAI key, ChatsCreate chat_request],
                chats_create rt ai chat_request)))"

section \<open>The runtime's JSON.parse\<close>

text \<open>
  \<^verbatim>\<open>JSON.parse\<close> belongs to the JavaScript runtime, not to the repository. The
  operations above take it as a parameter; this section gives the instance used to run
  them on concrete replies: the JSON grammar of ECMA-404 (four whitespace characters,
  the three literals, numbers, strings with their escapes, arrays, objects; exactly one
  value in the text). The text is read one character at a time into tokens, and the
  tokens are assembled with an explicit stack of open arrays and objects, so both passes
  are plain recursion over a list.
\<close>

datatype token =
    LBrace | RBrace | LBracket | RBracket | Colon | Comma
  | Literal json
  | Number string
  | Str js_string

datatype num_state =
    AfterMinus | LeadingZero | IntDigits | AfterPoint | FracDigits
  | AfterE | AfterESign | ExpDigits

datatype lex_state =
    Between
  | InString js_string
  | InEscape js_string
  | InHex js_string "nat list"
  | InNumber num_state string
  | InLiteral string json

definition is_digit :: "char \<Rightarrow> bool" where
  "is_digit c = (c \<in> set ''0123456789'')"

definition is_exp_mark :: "char \<Rightarrow> bool" where
  "is_exp_mark c = (c = CHR ''e'' \<or> c = CHR ''E'')"

definition is_whitespace :: "char \<Rightarrow> bool" where
  "is_whitespace c = (c = CHR 0x20 \<or> c = CHR 0x09 \<or> c = CHR 0x0A \<or> c = CHR 0x0D)"

definition hex_value :: "char \<Rightarrow> nat option" where
  "hex_value = map_of
     [(CHR ''0'', 0), (CHR ''1'', 1), (CHR ''2'', 2), (CHR ''3'', 3), (CHR ''4'', 4),
      (CHR ''5'', 5), (CHR ''6'', 6), (CHR ''7'', 7), (CHR ''8'', 8), (CHR ''9'', 9),
      (CHR ''a'', 10), (CHR ''b'', 11), (CHR ''c'', 12), (CHR ''d'', 13), (CHR ''e'', 14),
      (CHR ''f'', 15),
      (CHR ''A'', 10), (CHR ''B'', 11), (CHR ''C'', 12), (CHR ''D'', 13), (CHR ''E'', 14),
      (CHR ''F'', 15)]"

definition escape_value :: "char \<Rightarrow> nat option" where
  "escape_value = map_of
     [(CHR 0x22, 34), (CHR 0x5C, 92), (CHR ''/'', 47), (CHR ''b'', 8), (CHR ''f'', 12),
      (CHR ''n'', 10), (CHR ''r'', 13), (CHR ''t'', 9)]"

fun num_step :: "num_state \<Rightarrow> char \<Rightarrow> num_state option" where
  "num_step AfterMinus c =
     (if c = CHR ''0'' then Some LeadingZero else if is_digit c then Some IntDigits else None)"
| "num_step LeadingZero c =
     (if c = CHR ''.'' then Some AfterPoint else if is_exp_mark c then Some AfterE else None)"
| "num_step IntDigits c =
     (if is_digit c then Some IntDigits
      else if c = CHR ''.'' then Some AfterPoint
      else if is_exp_mark c then Some AfterE else None)"
| "num_step AfterPoint c = (if is_digit c then Some FracDigits else None)"
| "num_step FracDigits c =
     (if is_digit c then Some FracDigits else if is_exp_mark c then Some AfterE else None)"
| "num_step AfterE c =
     (if c = CHR ''+'' \<or> c = CHR ''-'' then Some AfterESign
      else if is_digit c then Some ExpDigits else None)"
| "num_step AfterESign c = (if is_digit c then Some ExpDigits else None)"
| "num_step ExpDigits c = (if is_digit c then Some ExpDigits else None)"

fun num_complete :: "num_state \<Rightarrow> bool" where
  "num_complete LeadingZero = True"
| "num_complete IntDigits = True"
| "num_complete FracDigits = True"
| "num_complete ExpDigits = True"
| "num_complete AfterMinus = False"
| "num_complete AfterPoint = False"
| "num_complete AfterE = False"
| "num_complete AfterESign = False"

definition lex_between :: "token list \<Rightarrow> char \<Rightarrow> (token list \<times> lex_state) option" where
  "lex_between toks c =
     (if is_whitespace c then Some (toks, Between)
      else if c = CHR ''{'' then Some (toks @ [LBrace], Between)
      else if c = CHR ''}'' then Some (toks @ [RBrace], Between)
      else if c = CHR ''['' then Some (toks @ [LBracket], Between)
      else if c = CHR '']'' then Some (toks @ [RBracket], Between)
      else if c = CHR '':'' then Some (toks @ [Colon], Between)
      else if c = CHR '','' then Some (toks @ [Comma], Between)
      else if c = CHR 0x22 then Some (toks, InString [])
      else if c = CHR ''-'' then Some (toks, InNumber AfterMinus [c])
      else if c = CHR ''0'' then Some (toks, InNumber LeadingZero [c])
      else if is_digit c then Some (toks, InNumber IntDigits [c])
      else if c = CHR ''n'' then Some (toks, InLiteral ''ull'' JNull)
      else if c = CHR ''t'' then Some (toks, InLiteral ''rue'' (JBool True))
      else if c = CHR ''f'' then Some (toks, InLiteral ''alse'' (JBool False))
      else None)"

fun lex_step :: "token list \<times> lex_state \<Rightarrow> char \<Rightarrow> (token list \<times> lex_state) option" where
  "lex_step (toks, Between) c = lex_between toks c"
| "lex_step (toks, InString s) c =
     (if c = CHR 0x22 then Some (toks @ [Str s], Between)
      else if c = CHR 0x5C then Some (toks, InEscape s)
      else if (of_char c :: nat) < 32 then None
      else Some (toks, InString (s @ [of_char c])))"
| "lex_step (toks, InEscape s) c =
     (case escape_value c of
        Some u \<Rightarrow> Some (toks, InString (s @ [u]))
      | None \<Rightarrow> if c = CHR ''u'' then Some (toks, InHex s []) else None)"
| "lex_step (toks, InHex s ds) c =
     (case hex_value c of
        None \<Rightarrow> None
      | Some d \<Rightarrow>
          if length ds = 3
          then Some (toks, InString (s @ [foldl (\<lambda>n h. 16 * n + h) 0 (ds @ [d])]))
          else Some (toks, InHex s (ds @ [d])))"
| "lex_step (toks, InNumber st lexeme) c =
     (case num_step st c of
        Some st' \<Rightarrow> Some (toks, InNumber st' (lexeme @ [c]))
      | None \<Rightarrow> if num_complete st then lex_between (toks @ [Number lexeme]) c else None)"
| "lex_step (toks, InLiteral rest v) c =
     (case rest of
        [] \<Rightarrow> None
      | x # xs \<Rightarrow>
          if c \<noteq> x then None
          else if xs = [] then Some (toks @ [Literal v], Between)
          else Some (toks, InLiteral xs v))"

fun lex_run :: "token list \<times> lex_state \<Rightarrow> string \<Rightarrow> (token list \<times> lex_state) option" where
  "lex_run cfg [] = Some cfg"
| "lex_run cfg (c # cs) =
     (case lex_step cfg c of None \<Rightarrow> None | Some cfg' \<Rightarrow> lex_run cfg' cs)"

fun lex_finish :: "token list \<times> lex_state \<Rightarrow> token list option" where
  "lex_finish (toks, Between) = Some toks"
| "lex_finish (toks, InNumber st lexeme) =
     (if num_complete st then Some (toks @ [Number lexeme]) else None)"
| "lex_finish (toks, InString s) = None"
| "lex_finish (toks, InEscape s) = None"
| "lex_finish (toks, InHex s ds) = None"
| "lex_finish (toks, InLiteral rest v) = None"

definition tokens_of :: "string \<Rightarrow> token list option" where
  "tokens_of text =
     (case lex_run ([], Between) text of None \<Rightarrow> None | Some cfg \<Rightarrow> lex_finish cfg)"

text \<open>
  The open containers, innermost first: an array with the elements read so far, an
  object with its members so far and the key whose value is being read.
\<close>

datatype frame =
    ArrayFrame "json list"
  | ObjectFrame "(js_string \<times> json) list" "js_string option"

datatype expect =
    ExpValue
  | ExpValueOrEnd
  | ExpKeyOrEnd
  | ExpKey
  | ExpColon
  | ExpCommaOrEnd
  | ExpNothing json

fun deliver :: "json \<Rightarrow> frame list \<Rightarrow> (frame list \<times> expect) option" where
  "deliver v [] = Some ([], ExpNothing v)"
| "deliver v (ArrayFrame es # st) = Some (ArrayFrame (es @ [v]) # st, ExpCommaOrEnd)"
| "deliver v (ObjectFrame ms (Some k) # st) =
     Some (ObjectFrame (ms @ [(k, v)]) None # st, ExpCommaOrEnd)"
| "deliver v (ObjectFrame ms None # st) = None"

fun start_value :: "frame list \<Rightarrow> token \<Rightarrow> (frame list \<times> expect) option" where
  "start_value st (Literal v) = deliver v st"
| "start_value st (Number n) = deliver (JNumber n) st"
| "start_value st (Str s) = deliver (JString s) st"
| "start_value st LBracket = Some (ArrayFrame [] # st, ExpValueOrEnd)"
| "start_value st LBrace = Some (ObjectFrame [] None # st, ExpKeyOrEnd)"
| "start_value st RBracket = None"
| "start_value st RBrace = None"
| "start_value st Colon = None"
| "start_value st Comma = None"

fun start_key :: "frame list \<Rightarrow> token \<Rightarrow> (frame list \<times> expect) option" where
  "start_key (ObjectFrame ms None # st) (Str k) = Some (ObjectFrame ms (Some k) # st, ExpColon)"
| "start_key st t = None"

fun close_array :: "frame list \<Rightarrow> (frame list \<times> expect) option" where
  "close_array (ArrayFrame es # st) = deliver (JArray es) st"
| "close_array st = None"

fun close_object :: "frame list \<Rightarrow> (frame list \<times> expect) option" where
  "close_object (ObjectFrame ms None # st) = deliver (JObject ms) st"
| "close_object st = None"

fun after_value :: "frame list \<Rightarrow> token \<Rightarrow> (frame list \<times> expect) option" where
  "after_value (ArrayFrame es # st) Comma = Some (ArrayFrame es # st, ExpValue)"
| "after_value (ArrayFrame es # st) RBracket = close_array (ArrayFrame es # st)"
| "after_value (ObjectFrame ms None # st) Comma = Some (ObjectFrame ms None # st, ExpKey)"
| "after_value (ObjectFrame ms None # st) RBrace = close_object (ObjectFrame ms None # st)"
| "after_value st t = None"

fun parse_step :: "frame list \<times> expect \<Rightarrow> token \<Rightarrow> (frame list \<times> expect) option" where
  "parse_step (st, ExpValue) t = start_value st t"
| "parse_step (st, ExpValueOrEnd) t = (if t = RBracket then close_array st else start_value st t)"
| "parse_step (st, ExpKeyOrEnd) t = (if t = RBrace then close_object st else start_key st t)"
| "parse_step (st, ExpKey) t = start_key st t"
| "parse_step (st, ExpColon) t = (if t = Colon then Some (st, ExpValue) else None)"
| "parse_step (st, ExpCommaOrEnd) t = after_value st t"
| "parse_step (st, ExpNothing v) t = None"

fun parse_run :: "frame list \<times> expect \<Rightarrow> token list \<Rightarrow> (frame list \<times> expect) option" where
  "parse_run cfg [] = Some cfg"
| "parse_run cfg (t # ts) =
     (case parse_step cfg t of None \<Rightarrow> None | Some cfg' \<Rightarrow> parse_run cfg' ts)"

fun parse_finish :: "frame list \<times> expect \<Rightarrow> json option" where
  "parse_finish ([], ExpNothing v) = Some v"
| "parse_finish cfg = None"

definition parse_json :: "string \<Rightarrow> json option" where
  "parse_json text =
     (case tokens_of text of
        None \<Rightarrow> None
      | Some toks \<Rightarrow>
          (case parse_run ([], ExpValue) toks of None \<Rightarrow> None | Some cfg \<Rightarrow> parse_finish cfg))"

text \<open>
  A failed parse throws a \<^verbatim>\<open>SyntaxError\<close>. Its message is worded differently by each
  engine, so the wording is given with the runtime.
\<close>

definition SyntaxError :: "string \<Rightarrow> js_error" where
  "SyntaxError m = JsError ''SyntaxError'' (Some m)"

definition ecma_JSON_parse :: "string \<Rightarrow> string \<Rightarrow> js_error + json" where
  "ecma_JSON_parse wording text =
     (case parse_json text of None \<Rightarrow> Inl (SyntaxError wording) | Some v \<Rightarrow> Inr v)"

text \<open>
  A runtime for running the operations: the environment variable, the outcome of the
  one \<^verbatim>\<open>generateContent\<close> call and the engine's wording of a syntax error are given;
  the constructor returns a client that is its key, and \<^verbatim>\<open>chats.create\<close> a session
  that is the client with the parameters it was created from.
\<close>

definition runtime_with ::
  "string option \<Rightarrow> js_error + response \<Rightarrow> string \<Rightarrow> (string, string \<times> chat_params) runtime" where
  "runtime_with key reply wording =
     \<lparr>env_API_KEY = key,
      GoogleGenAI = Inr,
      models_generateContent = (\<lambda>ai req. reply),
      chats_create = (\<lambda>ai params. Inr (ai, params)),
      JSON_parse = ecma_JSON_parse wording\<rparr>"

definition replies :: "string \<Rightarrow> js_error + response" where
  "replies text = Inr \<lparr>response_text = Some text\<rparr>"

section \<open>Observing a run\<close>

text \<open>
  What the properties below read off the effects of a run: the warnings printed, the
  requests sent to the service, the texts handed to \<^verbatim>\<open>JSON.parse\<close>, and the lines
  the two console calls print. \<^verbatim>\<open>console.error(label, error)\<close> prints the label and
  the error, which a console shows as its name and message; the stack trace that follows
  names code locations and is left out.
\<close>

fun warnings :: "event list \<Rightarrow> string list" where
  "warnings [] = []"
| "warnings (ConsoleWarn m # evs) = m # warnings evs"
| "warnings (ev # evs) = warnings evs"

fun network_calls :: "event list \<Rightarrow> request list" where
  "network_calls [] = []"
| "network_calls (GenerateContent req # evs) = req # network_calls evs"
| "network_calls (ev # evs) = network_calls evs"

fun parse_calls :: "event list \<Rightarrow> string list" where
  "parse_calls [] = []"
| "parse_calls (JSONParse t # evs) = t # parse_calls evs"
| "parse_calls (ev # evs) = parse_calls evs"

fun printed :: "event \<Rightarrow> string list" where
  "printed (ConsoleWarn m) = [m]"
| "printed (ConsoleError label e) =
     [label, error_name e @ (case error_message e of None \<Rightarrow> [] | Some m \<Rightarrow> '': '' @ m)]"
| "printed (NewGoogleGenAI k) = []"
| "printed (GenerateContent req) = []"
| "printed (JSONParse t) = []"
| "printed (ChatsCreate p) = []"

definition console_output :: "event list \<Rightarrow> string list" where
  "console_output evs = concat (map printed evs)"

definition appears_in_log :: "string \<Rightarrow> event list \<Rightarrow> bool" where
  "appears_in_log text evs = list_ex (sublist text) (console_output evs)"

text \<open>
  A property \<^verbatim>\<open>k\<close> is present in a parsed value when the value is an object with a
  member of that name. The eight names are the fields the specification calls required.
\<close>

fun has_field :: "string \<Rightarrow> json \<Rightarrow> bool" where
  "has_field k (JObject ms) = (units k \<in> set (map fst ms))"
| "has_field k JNull = False"
| "has_field k (JBool b) = False"
| "has_field k (JNumber n) = False"
| "has_field k (JString s) = False"
| "has_field k (JArray vs) = False"

definition required_fields :: "string list" where
  "required_fields =
     [''introduction'', ''detailedExplanation'', ''examples'', ''examPoints'',
      ''shortAnswerQuestions'', ''longAnswerQuestions'', ''pyqs'', ''vivaQuestions'']"

definition required_present :: "json \<Rightarrow> bool" where
  "required_present v = list_all (\<lambda>k. has_field k v) required_fields"

subsection \<open>Concrete inputs\<close>

definition sample_prefs :: user_preferences where
  "sample_prefs =
     \<lparr>subject = ''Pharmaceutics I'', semester = ''1'', topic = ''Tablets'',
      length_pref = ''Detailed'', university = None, includeDiagrams = True,
      includeMnemonics = True, includeClinicalCorrelation = False\<rparr>"

definition sample_reply :: string where
  "sample_reply = ''{\"introduction\": \"Tablets are solid unit dosage forms.\", \"detailedExplanation\": [\"Made by compression.\"], \"examples\": [\"Paracetamol\"], \"examPoints\": [{\"point\": \"Types\", \"mnemonic\": \"CEFS\"}, {\"point\": \"Excipients\"}], \"shortAnswerQuestions\": [\"Define tablet.\"], \"longAnswerQuestions\": [], \"pyqs\": [], \"vivaQuestions\": []}''"

definition sample_notes :: json where
  "sample_notes = JObject
     [(units ''introduction'', JString (units ''Tablets are solid unit dosage forms.'')),
      (units ''detailedExplanation'', JArray [JString (units ''Made by compression.'')]),
      (units ''examples'', JArray [JString (units ''Paracetamol'')]),
      (units ''examPoints'',
         JArray [JObject [(units ''point'', JString (units ''Types'')),
                          (units ''mnemonic'', JString (units ''CEFS''))],
                 JObject [(units ''point'', JString (units ''Excipients''))]]),
      (units ''shortAnswerQuestions'', JArray [JString (units ''Define tablet.'')]),
      (units ''longAnswerQuestions'', JArray []),
      (units ''pyqs'', JArray []),
      (units ''vivaQuestions'', JArray [])]"

text \<open>
  A reply in plain language instead of JSON, and the message Firefox gives for it.
\<close>

definition refusal_text :: string where
  "refusal_text = ''Sorry, I cannot help with that request.''"

definition firefox_wording :: string where
  "firefox_wording = ''JSON.parse: unexpected character at line 1 column 1 of the JSON data''"

definition quota_error :: js_error where
  "quota_error = JsError ''ApiError'' (Some ''429 quota exceeded'')"

definition fetch_error :: js_error where
  "fetch_error = JsError ''TypeError'' (Some ''fetch failed'')"



section \<open>Basic facts\<close>

lemma or_default_present: "m \<noteq> [] \<Longrightarrow> or_default (Some m) d = m"
  by (simp add: or_default_def truthy_def)

lemma or_default_absent: "\<not> truthy v \<Longrightarrow> or_default v d = d"
  by (simp add: or_default_def)

lemma warnings_append: "warnings (xs @ ys) = warnings xs @ warnings ys"
  by (induction xs rule: warnings.induct) simp_all

lemma network_calls_append: "network_calls (xs @ ys) = network_calls xs @ network_calls ys"
  by (induction xs rule: network_calls.induct) simp_all

lemma parse_calls_append: "parse_calls (xs @ ys) = parse_calls xs @ parse_calls ys"
  by (induction xs rule: parse_calls.induct) simp_all

subsection \<open>getApiKey\<close>

lemma getApiKey_missing:
  "\<not> truthy (env_API_KEY rt) \<Longrightarrow>
   getApiKey rt = ([ConsoleWarn ''API Key is missing. Ensure process.env.API_KEY is configured.''], [])"
  by (simp add: getApiKey_def or_default_def)

lemma getApiKey_present:
  "env_API_KEY rt = Some k \<Longrightarrow> k \<noteq> [] \<Longrightarrow> getApiKey rt = ([], k)"
  by (simp add: getApiKey_def or_default_def truthy_def)

lemma getApiKey_events:
  "fst (getApiKey rt) = [] \<or>
   fst (getApiKey rt) = [ConsoleWarn ''API Key is missing. Ensure process.env.API_KEY is configured.'']"
  by (simp add: getApiKey_def Let_def)

lemma getApiKey_calls:
  "network_calls (fst (getApiKey rt)) = [] \<and> parse_calls (fst (getApiKey rt)) = []"
  using getApiKey_events [of rt] by auto

subsection \<open>The three operations, path by path\<close>

lemma notes_with_client:
  "GoogleGenAI rt (snd (getApiKey rt)) = Inr ai \<Longrightarrow>
   generateStudyNotes rt prefs =
     (fst (getApiKey rt) @ NewGoogleGenAI (snd (getApiKey rt)) # fst (notes_catch (notes_try rt ai prefs)),
      snd (notes_catch (notes_try rt ai prefs)))"
  by (cases "getApiKey rt") (simp add: generateStudyNotes_def split: prod.splits)

lemma notes_without_client:
  "GoogleGenAI rt (snd (getApiKey rt)) = Inl e \<Longrightarrow>
   generateStudyNotes rt prefs = (fst (getApiKey rt) @ [NewGoogleGenAI (snd (getApiKey rt))], Inl e)"
  by (cases "getApiKey rt") (simp add: generateStudyNotes_def)

lemma notes_try_rejected:
  "models_generateContent rt ai (notes_request prefs) = Inl e \<Longrightarrow>
   notes_try rt ai prefs = ([GenerateContent (notes_request prefs)], Inl e)"
  by (simp add: notes_try_def)

lemma notes_try_empty:
  "models_generateContent rt ai (notes_request prefs) = Inr r \<Longrightarrow> \<not> truthy (response_text r) \<Longrightarrow>
   notes_try rt ai prefs =
     ([GenerateContent (notes_request prefs)],
      Inl (new_Error ''The AI returned an empty response. Please try again.''))"
  by (simp add: notes_try_def truthy_def split: option.splits)

lemma notes_try_text:
  "models_generateContent rt ai (notes_request prefs) = Inr r \<Longrightarrow> response_text r = Some t \<Longrightarrow>
   t \<noteq> [] \<Longrightarrow>
   notes_try rt ai prefs = ([GenerateContent (notes_request prefs), JSONParse t], JSON_parse rt t)"
  by (cases "JSON_parse rt t") (simp_all add: notes_try_def)

lemma notes_catch_thrown:
  "notes_catch (evs, Inl e) =
     (evs @ [ConsoleError ''Gemini API Error:'' e],
      Inl (new_Error (or_default (error_message e) ''Could not generate academic notes.'')))"
  by (simp add: notes_catch_def)

lemma notes_catch_returned: "notes_catch (evs, Inr v) = (evs, Inr v)"
  by (simp add: notes_catch_def)

lemma notes_run_rejected:
  assumes "GoogleGenAI rt (snd (getApiKey rt)) = Inr ai"
    and "models_generateContent rt ai (notes_request prefs) = Inl e"
  shows "generateStudyNotes rt prefs =
           (fst (getApiKey rt) @
              [NewGoogleGenAI (snd (getApiKey rt)), GenerateContent (notes_request prefs),
               ConsoleError ''Gemini API Error:'' e],
            Inl (new_Error (or_default (error_message e) ''Could not generate academic notes.'')))"
  by (simp add: notes_with_client [OF assms(1)] notes_try_rejected [OF assms(2)] notes_catch_thrown)

lemma notes_run_empty:
  assumes "GoogleGenAI rt (snd (getApiKey rt)) = Inr ai"
    and "models_generateContent rt ai (notes_request prefs) = Inr r"
    and "\<not> truthy (response_text r)"
  shows "generateStudyNotes rt prefs =
           (fst (getApiKey rt) @
              [NewGoogleGenAI (snd (getApiKey rt)), GenerateContent (notes_request prefs),
               ConsoleError ''Gemini API Error:''
                 (new_Error ''The AI returned an empty response. Please try again.'')],
            Inl (new_Error ''The AI returned an empty response. Please try again.''))"
  by (simp add: notes_with_client [OF assms(1)] notes_try_empty [OF assms(2,3)] notes_catch_thrown
      new_Error_def or_default_def truthy_def)

lemma notes_run_unparsed:
  assumes "GoogleGenAI rt (snd (getApiKey rt)) = Inr ai"
    and "models_generateContent rt ai (notes_request prefs) = Inr r"
    and "response_text r = Some t" and "t \<noteq> []"
    and "JSON_parse rt t = Inl e"
  shows "generateStudyNotes rt prefs =
           (fst (getApiKey rt) @
              [NewGoogleGenAI (snd (getApiKey rt)), GenerateContent (notes_request prefs),
               JSONParse t, ConsoleError ''Gemini API Error:'' e],
            Inl (new_Error (or_default (error_message e) ''Could not generate academic notes.'')))"
  by (simp add: notes_with_client [OF assms(1)] notes_try_text [OF assms(2,3,4)] assms(5)
      notes_catch_thrown)

lemma notes_run_parsed:
  assumes "GoogleGenAI rt (snd (getApiKey rt)) = Inr ai"
    and "models_generateContent rt ai (notes_request prefs) = Inr r"
    and "response_text r = Some t" and "t \<noteq> []"
    and "JSON_parse rt t = Inr v"
  shows "generateStudyNotes rt prefs =
           (fst (getApiKey rt) @
              [NewGoogleGenAI (snd (getApiKey rt)), GenerateContent (notes_request prefs),
               JSONParse t],
            Inr v)"
  by (simp add: notes_with_client [OF assms(1)] notes_try_text [OF assms(2,3,4)] assms(5)
      notes_catch_returned)

lemma notes_request_schema: "responseSchema (config (notes_request prefs)) = Some notes_schema"
  by (simp add: notes_request_def)

lemma notes_body_observed:
  "warnings (fst (notes_catch (notes_try rt ai prefs))) = []
   \<and> network_calls (fst (notes_catch (notes_try rt ai prefs))) = [notes_request prefs]"
  by (auto simp: notes_try_def notes_catch_def Let_def split: sum.splits option.splits)

lemma image_with_client:
  "GoogleGenAI rt (snd (getApiKey rt)) = Inr ai \<Longrightarrow>
   analyzePharmacyImage rt b m =
     (fst (getApiKey rt) @ NewGoogleGenAI (snd (getApiKey rt)) # fst (image_catch (image_try rt ai b m)),
      snd (image_catch (image_try rt ai b m)))"
  by (cases "getApiKey rt") (simp add: analyzePharmacyImage_def split: prod.splits)

lemma image_without_client:
  "GoogleGenAI rt (snd (getApiKey rt)) = Inl e \<Longrightarrow>
   analyzePharmacyImage rt b m = (fst (getApiKey rt) @ [NewGoogleGenAI (snd (getApiKey rt))], Inl e)"
  by (cases "getApiKey rt") (simp add: analyzePharmacyImage_def)

lemma image_run_rejected:
  assumes "GoogleGenAI rt (snd (getApiKey rt)) = Inr ai"
    and "models_generateContent rt ai (image_request b m) = Inl e"
  shows "analyzePharmacyImage rt b m =
           (fst (getApiKey rt) @
              [NewGoogleGenAI (snd (getApiKey rt)), GenerateContent (image_request b m),
               ConsoleError ''Image Analysis Error:'' e],
            Inl (new_Error ''Failed to process image lab analysis.''))"
  by (simp add: image_with_client [OF assms(1)] image_try_def assms(2) image_catch_def)

lemma image_run_replied:
  assumes "GoogleGenAI rt (snd (getApiKey rt)) = Inr ai"
    and "models_generateContent rt ai (image_request b m) = Inr r"
  shows "analyzePharmacyImage rt b m =
           (fst (getApiKey rt) @
              [NewGoogleGenAI (snd (getApiKey rt)), GenerateContent (image_request b m)],
            Inr (or_default (response_text r) ''Analysis unavailable for this image.''))"
  by (simp add: image_with_client [OF assms(1)] image_try_def assms(2) image_catch_def)

lemma image_body_observed:
  "warnings (fst (image_catch (image_try rt ai b m))) = []"
  by (auto simp: image_try_def image_catch_def Let_def split: sum.splits)

lemma chat_with_client:
  "GoogleGenAI rt (snd (getApiKey rt)) = Inr ai \<Longrightarrow>
   createPharmacyChatSession rt =
     (fst (getApiKey rt) @ [NewGoogleGenAI (snd (getApiKey rt)), ChatsCreate chat_request],
      chats_create rt ai chat_request)"
  by (cases "getApiKey rt") (simp add: createPharmacyChatSession_def)

lemma chat_without_client:
  "GoogleGenAI rt (snd (getApiKey rt)) = Inl e \<Longrightarrow>
   createPharmacyChatSession rt = (fst (getApiKey rt) @ [NewGoogleGenAI (snd (getApiKey rt))], Inl e)"
  by (cases "getApiKey rt") (simp add: createPharmacyChatSession_def)

text \<open>
  Every operation begins by reading the key and constructing a client with it, and
  prints no warning afterwards.
\<close>

lemma notes_starts_with_key:
  "\<exists>rest. fst (generateStudyNotes rt prefs) =
      fst (getApiKey rt) @ NewGoogleGenAI (snd (getApiKey rt)) # rest \<and> warnings rest = []"
proof (cases "GoogleGenAI rt (snd (getApiKey rt))")
  case (Inl e)
  then show ?thesis by (simp add: notes_without_client)
next
  case (Inr ai)
  then show ?thesis
    using notes_body_observed [of rt ai prefs] by (simp add: notes_with_client)
qed

lemma image_starts_with_key:
  "\<exists>rest. fst (analyzePharmacyImage rt b m) =
      fst (getApiKey rt) @ NewGoogleGenAI (snd (getApiKey rt)) # rest \<and> warnings rest = []"
proof (cases "GoogleGenAI rt (snd (getApiKey rt))")
  case (Inl e)
  then show ?thesis by (simp add: image_without_client)
next
  case (Inr ai)
  then show ?thesis
    using image_body_observed [of rt ai b m] by (simp add: image_with_client)
qed

lemma chat_starts_with_key:
  "\<exists>rest. fst (createPharmacyChatSession rt) =
      fst (getApiKey rt) @ NewGoogleGenAI (snd (getApiKey rt)) # rest \<and> warnings rest = []"
proof (cases "GoogleGenAI rt (snd (getApiKey rt))")
  case (Inl e)
  then show ?thesis by (simp add: chat_without_client)
next
  case (Inr ai)
  then show ?thesis by (simp add: chat_with_client)
qed

lemma one_warning:
  assumes "\<not> truthy (env_API_KEY rt)"
    and "\<exists>rest. evs = fst (getApiKey rt) @ NewGoogleGenAI (snd (getApiKey rt)) # rest
          \<and> warnings rest = []"
  shows "warnings evs = [''API Key is missing. Ensure process.env.API_KEY is configured.'']
       \<and> take 2 evs =
           [ConsoleWarn ''API Key is missing. Ensure process.env.API_KEY is configured.'',
            NewGoogleGenAI []]"
  using assms(2) by (auto simp: getApiKey_missing [OF assms(1)])

subsection \<open>The runtime used for concrete runs\<close>

lemma runtime_with_client: "GoogleGenAI (runtime_with key reply wording) k = Inr k"
  by (simp add: runtime_with_def)

lemma runtime_with_reply: "models_generateContent (runtime_with key reply wording) ai req = reply"
  by (simp add: runtime_with_def)

lemma runtime_with_env: "env_API_KEY (runtime_with key reply wording) = key"
  by (simp add: runtime_with_def)


lemma runtime_with_parse: "JSON_parse (runtime_with key reply wording) = ecma_JSON_parse wording"
  by (simp add: runtime_with_def)

lemma runtime_with_key:
  "getApiKey (runtime_with (Some ''k1'') reply wording) = ([], ''k1'')"
  by (simp add: getApiKey_present runtime_with_env)

lemma runtime_without_key:
  "getApiKey (runtime_with None reply wording) =
     ([ConsoleWarn ''API Key is missing. Ensure process.env.API_KEY is configured.''], [])"
  by (simp add: getApiKey_missing runtime_with_env truthy_def)




lemma parse_nothing: "parse_json [] = None"
  by (simp add: parse_json_def tokens_of_def)

lemma parse_empty_object: "parse_json ''{}'' = Some (JObject [])"
  by (simp add: parse_json_def tokens_of_def lex_between_def is_whitespace_def)

lemma parse_null: "parse_json ''null'' = Some JNull"
  by (simp add: parse_json_def tokens_of_def lex_between_def is_whitespace_def is_digit_def)

lemma parse_number: "parse_json ''42'' = Some (JNumber ''42'')"
  by (simp add: parse_json_def tokens_of_def lex_between_def is_whitespace_def is_digit_def)

lemma parse_unrelated:
  "parse_json ''{\"unrelated\": 1}'' = Some (JObject [(units ''unrelated'', JNumber ''1'')])"
  by code_simp

lemma parse_sample: "parse_json sample_reply = Some sample_notes"
  by code_simp

lemma parse_refusal: "parse_json refusal_text = None"
  by (simp add: refusal_text_def parse_json_def tokens_of_def lex_between_def is_whitespace_def
      is_digit_def)

text \<open>
  With this runtime, every reply that is a JSON text by the grammar above is returned as
  the value it parses to.
\<close>

lemma valid_json_returned:
  assumes "parse_json t = Some v"
  shows "snd (generateStudyNotes (runtime_with key (replies t) wording) prefs) = Inr v"
proof -
  have "t \<noteq> []"
    using assms parse_nothing by auto
  then show ?thesis
    using notes_run_parsed [of "runtime_with key (replies t) wording"
        "snd (getApiKey (runtime_with key (replies t) wording))" prefs
        "\<lparr>response_text = Some t\<rparr>" t v] assms
    by (simp add: runtime_with_client runtime_with_reply runtime_with_parse replies_def
        ecma_JSON_parse_def)
qed

lemma sample_texts_nonempty: "sample_reply \<noteq> []" "refusal_text \<noteq> []" "firefox_wording \<noteq> []"
  by (simp_all add: sample_reply_def refusal_text_def firefox_wording_def)

section \<open>generateStudyNotes\<close>

text \<open>
  C1 (as amended). Once the client is constructed, \<^verbatim>\<open>generateStudyNotes\<close> has four
  outcomes and no other: it returns the value \<^verbatim>\<open>JSON.parse\<close> yields for the non-empty
  reply text, unchanged and unchecked; or it throws an \<^verbatim>\<open>Error\<close> with the
  empty-response message (the reply had no text), with the parser's message (the text did
  not parse) or with the service's message (the request failed), the last two replaced by
  the fallback message when the caught error has none. The required fields are therefore
  present in a returned value only when the reply supplies them.
\<close>

theorem notes_outcomes:
  assumes "GoogleGenAI rt (snd (getApiKey rt)) = Inr ai"
  shows "(\<exists>r t v. models_generateContent rt ai (notes_request prefs) = Inr r
            \<and> response_text r = Some t \<and> t \<noteq> [] \<and> JSON_parse rt t = Inr v
            \<and> snd (generateStudyNotes rt prefs) = Inr v)
       \<or> (\<exists>r. models_generateContent rt ai (notes_request prefs) = Inr r
            \<and> \<not> truthy (response_text r)
            \<and> snd (generateStudyNotes rt prefs) =
                Inl (new_Error ''The AI returned an empty response. Please try again.''))
       \<or> (\<exists>r t e. models_generateContent rt ai (notes_request prefs) = Inr r
            \<and> response_text r = Some t \<and> t \<noteq> [] \<and> JSON_parse rt t = Inl e
            \<and> snd (generateStudyNotes rt prefs) =
                Inl (new_Error (or_default (error_message e) ''Could not generate academic notes.'')))
       \<or> (\<exists>e. models_generateContent rt ai (notes_request prefs) = Inl e
            \<and> snd (generateStudyNotes rt prefs) =
                Inl (new_Error (or_default (error_message e) ''Could not generate academic notes.'')))"
proof (cases "models_generateContent rt ai (notes_request prefs)")
  case (Inl e)
  then show ?thesis
    using notes_run_rejected [OF assms Inl] by simp
next
  case reply: (Inr r)
  show ?thesis
  proof (cases "truthy (response_text r)")
    case False
    then show ?thesis
      using notes_run_empty [OF assms reply False] reply by simp
  next
    case True
    then obtain t where t: "response_text r = Some t" "t \<noteq> []"
      by (cases "response_text r") (simp_all add: truthy_def)
    show ?thesis
    proof (cases "JSON_parse rt t")
      case (Inl e)
      then show ?thesis
        using notes_run_unparsed [OF assms reply t Inl] reply t by simp
    next
      case (Inr v)
      then show ?thesis
        using notes_run_parsed [OF assms reply t Inr] reply t by simp
    qed
  qed
qed

text \<open>
  A run of the first kind: the reply carries all eight required fields, and the value
  returned is the parsed reply.
\<close>

theorem notes_outcomes_witness:
  "GoogleGenAI (runtime_with (Some ''k1'') (replies sample_reply) firefox_wording)
     (snd (getApiKey (runtime_with (Some ''k1'') (replies sample_reply) firefox_wording))) = Inr ''k1''
   \<and> snd (generateStudyNotes (runtime_with (Some ''k1'') (replies sample_reply) firefox_wording)
          sample_prefs) = Inr sample_notes
   \<and> required_present sample_notes"
proof -
  have present: "required_present sample_notes"
    by (simp add: required_present_def required_fields_def sample_notes_def units_def)
  show ?thesis
    using notes_outcomes [of "runtime_with (Some ''k1'') (replies sample_reply) firefox_wording"
        "''k1''" sample_prefs] present
    by (simp add: runtime_with_client runtime_with_reply runtime_with_key runtime_with_parse
        replies_def truthy_def ecma_JSON_parse_def parse_sample sample_texts_nonempty)
qed

text \<open>
  C1 as stated fails: the reply \<^verbatim>\<open>{}\<close> is valid JSON, so it is returned, and none of
  the required fields is present in it.
\<close>

theorem notes_required_counterexample:
  "snd (generateStudyNotes (runtime_with (Some ''k1'') (replies ''{}'') firefox_wording) sample_prefs)
     = Inr (JObject [])
   \<and> \<not> required_present (JObject [])
   \<and> \<not> has_field ''introduction'' (JObject [])"
proof -
  have "generateStudyNotes (runtime_with (Some ''k1'') (replies ''{}'') firefox_wording) sample_prefs =
          ([NewGoogleGenAI ''k1'', GenerateContent (notes_request sample_prefs), JSONParse ''{}''],
           Inr (JObject []))"
    using notes_run_parsed [of "runtime_with (Some ''k1'') (replies ''{}'') firefox_wording" "''k1''"
        sample_prefs "\<lparr>response_text = Some ''{}''\<rparr>" "''{}''" "JObject []"]
    by (simp add: runtime_with_client runtime_with_reply runtime_with_key runtime_with_parse
        replies_def ecma_JSON_parse_def parse_empty_object)
  then show ?thesis
    by (simp add: required_present_def required_fields_def)
qed

text \<open>
  C2. When the reply has no usable text (\<^verbatim>\<open>response.text\<close> is \<^verbatim>\<open>undefined\<close> or the
  empty string), \<^verbatim>\<open>generateStudyNotes\<close> throws the empty-response error and
  \<^verbatim>\<open>JSON.parse\<close> is not called.
\<close>

theorem notes_empty_reply:
  assumes "GoogleGenAI rt (snd (getApiKey rt)) = Inr ai"
    and "models_generateContent rt ai (notes_request prefs) = Inr r"
    and "\<not> truthy (response_text r)"
  shows "snd (generateStudyNotes rt prefs) =
           Inl (new_Error ''The AI returned an empty response. Please try again.'')
         \<and> parse_calls (fst (generateStudyNotes rt prefs)) = []"
  using getApiKey_calls [of rt]
  by (simp add: notes_run_empty [OF assms] parse_calls_append)

theorem notes_empty_reply_witness:
  "snd (generateStudyNotes (runtime_with (Some ''k1'') (replies []) firefox_wording) sample_prefs) =
     Inl (new_Error ''The AI returned an empty response. Please try again.'')
   \<and> parse_calls (fst (generateStudyNotes (runtime_with (Some ''k1'') (replies []) firefox_wording)
        sample_prefs)) = []
   \<and> snd (generateStudyNotes (runtime_with None (Inr \<lparr>response_text = None\<rparr>) firefox_wording)
        sample_prefs) =
     Inl (new_Error ''The AI returned an empty response. Please try again.'')
   \<and> parse_calls (fst (generateStudyNotes
        (runtime_with None (Inr \<lparr>response_text = None\<rparr>) firefox_wording) sample_prefs)) = []"
  using notes_empty_reply [of "runtime_with (Some ''k1'') (replies []) firefox_wording" "''k1''"
      sample_prefs "\<lparr>response_text = Some []\<rparr>"]
    notes_empty_reply [of "runtime_with None (Inr \<lparr>response_text = None\<rparr>) firefox_wording" "[]"
      sample_prefs "\<lparr>response_text = None\<rparr>"]
  by (simp add: runtime_with_client runtime_with_reply runtime_with_key runtime_without_key
      replies_def truthy_def)

text \<open>
  C3 (as amended). When the reply text is non-empty and \<^verbatim>\<open>JSON.parse\<close> rejects it,
  \<^verbatim>\<open>generateStudyNotes\<close> throws an \<^verbatim>\<open>Error\<close> with the parser's message (the
  fallback message when the parser's error has none), and what it adds to the log is the
  label \<^verbatim>\<open>Gemini API Error:\<close> with the parser's error. The reply text is given to no
  console call.
\<close>

theorem notes_parse_failure:
  assumes "GoogleGenAI rt (snd (getApiKey rt)) = Inr ai"
    and "models_generateContent rt ai (notes_request prefs) = Inr r"
    and "response_text r = Some t" and "t \<noteq> []"
    and "JSON_parse rt t = Inl e"
  shows "generateStudyNotes rt prefs =
           (fst (getApiKey rt) @
              [NewGoogleGenAI (snd (getApiKey rt)), GenerateContent (notes_request prefs),
               JSONParse t, ConsoleError ''Gemini API Error:'' e],
            Inl (new_Error (or_default (error_message e) ''Could not generate academic notes.'')))
         \<and> console_output (fst (generateStudyNotes rt prefs)) =
             console_output (fst (getApiKey rt)) @
             [''Gemini API Error:'',
              error_name e @ (case error_message e of None \<Rightarrow> [] | Some m \<Rightarrow> '': '' @ m)]"
  by (simp add: notes_run_unparsed [OF assms] console_output_def)

theorem notes_parse_failure_witness:
  "JSON_parse (runtime_with (Some ''k1'') (replies refusal_text) firefox_wording) refusal_text =
     Inl (SyntaxError firefox_wording)
   \<and> snd (generateStudyNotes (runtime_with (Some ''k1'') (replies refusal_text) firefox_wording)
          sample_prefs) = Inl (new_Error firefox_wording)
   \<and> console_output (fst (generateStudyNotes
          (runtime_with (Some ''k1'') (replies refusal_text) firefox_wording) sample_prefs)) =
       [''Gemini API Error:'', ''SyntaxError: '' @ firefox_wording]"
proof -
  have rejected: "JSON_parse (runtime_with (Some ''k1'') (replies refusal_text) firefox_wording)
      refusal_text = Inl (SyntaxError firefox_wording)"
    by (simp add: runtime_with_parse ecma_JSON_parse_def parse_refusal)
  show ?thesis
    using notes_parse_failure [of "runtime_with (Some ''k1'') (replies refusal_text) firefox_wording"
        "''k1''" sample_prefs "\<lparr>response_text = Some refusal_text\<rparr>" refusal_text
        "SyntaxError firefox_wording"] rejected sample_texts_nonempty
    by (simp add: runtime_with_client runtime_with_reply runtime_with_key replies_def
        or_default_present SyntaxError_def console_output_def)
qed

text \<open>
  C3 as stated fails: a reply in plain language is rejected by the parser, the error
  thrown and logged carries the parser's message, and the reply text is nowhere in the
  console output.
\<close>

theorem notes_reply_logged_counterexample:
  "refusal_text \<noteq> [] \<and> parse_json refusal_text = None
   \<and> snd (generateStudyNotes (runtime_with (Some ''k1'') (replies refusal_text) firefox_wording)
          sample_prefs) = Inl (new_Error firefox_wording)
   \<and> \<not> appears_in_log refusal_text
         (fst (generateStudyNotes (runtime_with (Some ''k1'') (replies refusal_text) firefox_wording)
            sample_prefs))"
proof -
  have run: "generateStudyNotes (runtime_with (Some ''k1'') (replies refusal_text) firefox_wording)
        sample_prefs =
      ([NewGoogleGenAI ''k1'', GenerateContent (notes_request sample_prefs),
        JSONParse refusal_text, ConsoleError ''Gemini API Error:'' (SyntaxError firefox_wording)],
       Inl (new_Error firefox_wording))"
    using notes_run_unparsed [of "runtime_with (Some ''k1'') (replies refusal_text) firefox_wording"
        "''k1''" sample_prefs "\<lparr>response_text = Some refusal_text\<rparr>" refusal_text
        "SyntaxError firefox_wording"] sample_texts_nonempty
    by (simp add: runtime_with_client runtime_with_reply runtime_with_key runtime_with_parse
        replies_def or_default_present SyntaxError_def ecma_JSON_parse_def parse_refusal)
  have absent: "\<not> list_ex (sublist refusal_text)
      [''Gemini API Error:'', ''SyntaxError: '' @ firefox_wording]"
    by code_simp
  show ?thesis
    using absent by (simp add: run sample_texts_nonempty parse_refusal appears_in_log_def
        console_output_def SyntaxError_def)
qed

text \<open>
  C4. When the request itself fails, the error thrown to the caller carries the message
  of the caught error when it has one (defined and not empty) and the fallback message
  \<^verbatim>\<open>Could not generate academic notes.\<close> otherwise; the caught error is logged.
\<close>

theorem notes_service_error:
  assumes "GoogleGenAI rt (snd (getApiKey rt)) = Inr ai"
    and "models_generateContent rt ai (notes_request prefs) = Inl e"
  shows "(\<forall>m. error_message e = Some m \<and> m \<noteq> [] \<longrightarrow>
            snd (generateStudyNotes rt prefs) = Inl (new_Error m))
       \<and> (\<not> truthy (error_message e) \<longrightarrow>
            snd (generateStudyNotes rt prefs) = Inl (new_Error ''Could not generate academic notes.''))
       \<and> console_output (fst (generateStudyNotes rt prefs)) =
           console_output (fst (getApiKey rt)) @ printed (ConsoleError ''Gemini API Error:'' e)"
  by (simp add: notes_run_rejected [OF assms] or_default_def truthy_def console_output_def)

theorem notes_service_error_witness:
  "snd (generateStudyNotes (runtime_with (Some ''k1'') (Inl quota_error) firefox_wording)
         sample_prefs) = Inl (new_Error ''429 quota exceeded'')
   \<and> snd (generateStudyNotes (runtime_with (Some ''k1'') (Inl (JsError ''Error'' None)) firefox_wording)
         sample_prefs) = Inl (new_Error ''Could not generate academic notes.'')
   \<and> snd (generateStudyNotes (runtime_with (Some ''k1'') (Inl (JsError ''Error'' (Some []))) firefox_wording)
         sample_prefs) = Inl (new_Error ''Could not generate academic notes.'')"
  using notes_service_error [of "runtime_with (Some ''k1'') (Inl quota_error) firefox_wording"
      "''k1''" sample_prefs quota_error]
    notes_service_error [of "runtime_with (Some ''k1'') (Inl (JsError ''Error'' None)) firefox_wording"
      "''k1''" sample_prefs "JsError ''Error'' None"]
    notes_service_error [of "runtime_with (Some ''k1'') (Inl (JsError ''Error'' (Some []))) firefox_wording"
      "''k1''" sample_prefs "JsError ''Error'' (Some [])"]
  by (simp add: runtime_with_client runtime_with_reply runtime_with_key truthy_def quota_error_def)

text \<open>
  C5. The only request \<^verbatim>\<open>generateStudyNotes\<close> sends is \<open>notes_request prefs\<close>, and its
  \<^verbatim>\<open>responseSchema\<close> requires exactly the eight fields at the top level; an item of
  \<^verbatim>\<open>examPoints\<close> has the properties \<^verbatim>\<open>point\<close> and \<^verbatim>\<open>mnemonic\<close> and requires only
  \<^verbatim>\<open>point\<close>; an item of \<^verbatim>\<open>classification\<close> has the properties \<^verbatim>\<open>type\<close> and
  \<^verbatim>\<open>explanation\<close> and requires both.
\<close>

theorem notes_schema_required:
  "list_all (\<lambda>req. responseSchema (config req) = Some notes_schema)
     (network_calls (fst (generateStudyNotes rt prefs)))
   \<and> (\<forall>ai. GoogleGenAI rt (snd (getApiKey rt)) = Inr ai \<longrightarrow>
         network_calls (fst (generateStudyNotes rt prefs)) = [notes_request prefs])
   \<and> set (required notes_schema) =
       {''introduction'', ''detailedExplanation'', ''examples'', ''examPoints'',
        ''shortAnswerQuestions'', ''longAnswerQuestions'', ''pyqs'', ''vivaQuestions''}
   \<and> distinct (required notes_schema)
   \<and> map_of (properties notes_schema) ''examPoints'' =
       Some (TypeARRAY (TypeOBJECT [(''point'', TypeSTRING), (''mnemonic'', TypeSTRING)] [''point'']))
   \<and> map_of (properties notes_schema) ''classification'' =
       Some (TypeARRAY (TypeOBJECT [(''type'', TypeSTRING), (''explanation'', TypeSTRING)]
          [''type'', ''explanation'']))"
proof -
  have calls: "network_calls (fst (generateStudyNotes rt prefs)) =
      (case GoogleGenAI rt (snd (getApiKey rt)) of Inl e \<Rightarrow> [] | Inr ai \<Rightarrow> [notes_request prefs])"
  proof (cases "GoogleGenAI rt (snd (getApiKey rt))")
    case (Inl e)
    then show ?thesis
      using getApiKey_calls [of rt] by (simp add: notes_without_client network_calls_append)
  next
    case (Inr ai)
    then show ?thesis
      using getApiKey_calls [of rt] notes_body_observed [of rt ai prefs]
      by (simp add: notes_with_client network_calls_append)
  qed
  have schema: "responseSchema (config (notes_request prefs)) = Some notes_schema"
    by (rule notes_request_schema)
  have sent: "list_all (\<lambda>req. responseSchema (config req) = Some notes_schema)
     (network_calls (fst (generateStudyNotes rt prefs)))"
    by (cases "GoogleGenAI rt (snd (getApiKey rt))") (simp_all add: calls schema)
  have once: "\<forall>ai. GoogleGenAI rt (snd (getApiKey rt)) = Inr ai \<longrightarrow>
         network_calls (fst (generateStudyNotes rt prefs)) = [notes_request prefs]"
    by (simp add: calls)
  have top: "set (required notes_schema) =
       {''introduction'', ''detailedExplanation'', ''examples'', ''examPoints'',
        ''shortAnswerQuestions'', ''longAnswerQuestions'', ''pyqs'', ''vivaQuestions''}"
    "distinct (required notes_schema)"
    by (simp_all add: notes_schema_def)
  have nested: "map_of (properties notes_schema) ''examPoints'' =
       Some (TypeARRAY (TypeOBJECT [(''point'', TypeSTRING), (''mnemonic'', TypeSTRING)] [''point'']))"
    "map_of (properties notes_schema) ''classification'' =
       Some (TypeARRAY (TypeOBJECT [(''type'', TypeSTRING), (''explanation'', TypeSTRING)]
          [''type'', ''explanation'']))"
    by (simp_all add: notes_schema_def examPoints_item_def classification_item_def)
  from sent once top nested show ?thesis by blast
qed

theorem notes_schema_required_witness:
  "network_calls (fst (generateStudyNotes (runtime_with (Some ''k1'') (replies ''{}'') firefox_wording)
      sample_prefs)) = [notes_request sample_prefs]
   \<and> responseSchema (config (notes_request sample_prefs)) = Some notes_schema"
proof -
  have "list_all (\<lambda>req. responseSchema (config req) = Some notes_schema)
          (network_calls (fst (generateStudyNotes
             (runtime_with (Some ''k1'') (replies ''{}'') firefox_wording) sample_prefs)))"
    and "network_calls (fst (generateStudyNotes
             (runtime_with (Some ''k1'') (replies ''{}'') firefox_wording) sample_prefs)) =
          [notes_request sample_prefs]"
    using notes_schema_required [of "runtime_with (Some ''k1'') (replies ''{}'') firefox_wording"
        sample_prefs]
    by (simp_all add: runtime_with_client runtime_with_key notes_request_schema)
  then show ?thesis by simp
qed

text \<open>
  C10. No check follows the parse: whenever the runtime's \<^verbatim>\<open>JSON.parse\<close> accepts the
  non-empty reply text, the value it yields is what \<^verbatim>\<open>generateStudyNotes\<close> returns,
  and nothing is logged beyond what \<^verbatim>\<open>getApiKey\<close> printed. (A valid JSON text is never
  empty.)
\<close>

theorem notes_unvalidated:
  assumes "GoogleGenAI rt (snd (getApiKey rt)) = Inr ai"
    and "models_generateContent rt ai (notes_request prefs) = Inr r"
    and "response_text r = Some t" and "t \<noteq> []"
    and "JSON_parse rt t = Inr v"
  shows "snd (generateStudyNotes rt prefs) = Inr v
       \<and> console_output (fst (generateStudyNotes rt prefs)) = console_output (fst (getApiKey rt))"
  by (simp add: notes_run_parsed [OF assms] console_output_def)

text \<open>
  The replies \<^verbatim>\<open>null\<close>, \<^verbatim>\<open>42\<close>, \<^verbatim>\<open>{}\<close> and an object with none of the required
  fields are each returned as they parse.
\<close>

theorem notes_unvalidated_witness:
  "snd (generateStudyNotes (runtime_with (Some ''k1'') (replies ''null'') firefox_wording) sample_prefs)
     = Inr JNull
   \<and> snd (generateStudyNotes (runtime_with (Some ''k1'') (replies ''42'') firefox_wording) sample_prefs)
     = Inr (JNumber ''42'')
   \<and> snd (generateStudyNotes (runtime_with (Some ''k1'') (replies ''{}'') firefox_wording) sample_prefs)
     = Inr (JObject [])
   \<and> snd (generateStudyNotes
        (runtime_with (Some ''k1'') (replies ''{\"unrelated\": 1}'') firefox_wording) sample_prefs)
     = Inr (JObject [(units ''unrelated'', JNumber ''1'')])
   \<and> \<not> list_ex (\<lambda>k. has_field k (JObject [(units ''unrelated'', JNumber ''1'')])) required_fields"
proof -
  have absent:
    "\<not> list_ex (\<lambda>k. has_field k (JObject [(units ''unrelated'', JNumber ''1'')])) required_fields"
    by (simp add: units_def required_fields_def)
  show ?thesis
    using notes_unvalidated [of "runtime_with (Some ''k1'') (replies ''null'') firefox_wording" "''k1''"
        sample_prefs "\<lparr>response_text = Some ''null''\<rparr>" "''null''" JNull]
      notes_unvalidated [of "runtime_with (Some ''k1'') (replies ''42'') firefox_wording" "''k1''"
        sample_prefs "\<lparr>response_text = Some ''42''\<rparr>" "''42''" "JNumber ''42''"]
      notes_unvalidated [of "runtime_with (Some ''k1'') (replies ''{}'') firefox_wording" "''k1''"
        sample_prefs "\<lparr>response_text = Some ''{}''\<rparr>" "''{}''" "JObject []"]
      notes_unvalidated [of "runtime_with (Some ''k1'') (replies ''{\"unrelated\": 1}'') firefox_wording"
        "''k1''" sample_prefs "\<lparr>response_text = Some ''{\"unrelated\": 1}''\<rparr>"
        "''{\"unrelated\": 1}''" "JObject [(units ''unrelated'', JNumber ''1'')]"]
      absent
    by (simp add: runtime_with_client runtime_with_reply runtime_with_key runtime_with_parse
        replies_def ecma_JSON_parse_def parse_null parse_number parse_empty_object parse_unrelated)
qed

section \<open>analyzePharmacyImage\<close>

text \<open>
  C6. When the reply to \<^verbatim>\<open>analyzePharmacyImage\<close> has no text, the operation returns
  the literal \<^verbatim>\<open>Analysis unavailable for this image.\<close> and throws nothing, whatever the
  image and MIME type.
\<close>

theorem image_empty_reply:
  assumes "GoogleGenAI rt (snd (getApiKey rt)) = Inr ai"
    and "models_generateContent rt ai (image_request base64Image mimeType) = Inr r"
    and "\<not> truthy (response_text r)"
  shows "snd (analyzePharmacyImage rt base64Image mimeType) =
           Inr ''Analysis unavailable for this image.''"
  by (simp add: image_run_replied [OF assms(1,2)] or_default_absent [OF assms(3)])

theorem image_empty_reply_witness:
  "snd (analyzePharmacyImage (runtime_with (Some ''k1'') (replies []) firefox_wording)
          ''iVBORw0KGgo='' ''image/png'') = Inr ''Analysis unavailable for this image.''
   \<and> snd (analyzePharmacyImage (runtime_with None (Inr \<lparr>response_text = None\<rparr>) firefox_wording)
          [] []) = Inr ''Analysis unavailable for this image.''"
  using image_empty_reply [of "runtime_with (Some ''k1'') (replies []) firefox_wording" "''k1''"
      "''iVBORw0KGgo=''" "''image/png''" "\<lparr>response_text = Some []\<rparr>"]
    image_empty_reply [of "runtime_with None (Inr \<lparr>response_text = None\<rparr>) firefox_wording" "[]"
      "[]" "[]" "\<lparr>response_text = None\<rparr>"]
  by (simp add: runtime_with_client runtime_with_reply runtime_with_key runtime_without_key
      replies_def truthy_def)

text \<open>
  C7. Whatever error the request of \<^verbatim>\<open>analyzePharmacyImage\<close> fails with, the error
  thrown to the caller is the same: an \<^verbatim>\<open>Error\<close> with the fixed message
  \<^verbatim>\<open>Failed to process image lab analysis.\<close>, in which the caught error has no part. The
  caught error is logged under \<^verbatim>\<open>Image Analysis Error:\<close>.
\<close>

theorem image_error_generic:
  assumes "GoogleGenAI rt1 (snd (getApiKey rt1)) = Inr ai1"
    and "models_generateContent rt1 ai1 (image_request b1 m1) = Inl e1"
    and "GoogleGenAI rt2 (snd (getApiKey rt2)) = Inr ai2"
    and "models_generateContent rt2 ai2 (image_request b2 m2) = Inl e2"
  shows "snd (analyzePharmacyImage rt1 b1 m1) = Inl (new_Error ''Failed to process image lab analysis.'')
       \<and> snd (analyzePharmacyImage rt2 b2 m2) = snd (analyzePharmacyImage rt1 b1 m1)
       \<and> console_output (fst (analyzePharmacyImage rt1 b1 m1)) =
           console_output (fst (getApiKey rt1)) @ printed (ConsoleError ''Image Analysis Error:'' e1)
       \<and> console_output (fst (analyzePharmacyImage rt2 b2 m2)) =
           console_output (fst (getApiKey rt2)) @ printed (ConsoleError ''Image Analysis Error:'' e2)"
  by (simp add: image_run_rejected [OF assms(1,2)] image_run_rejected [OF assms(3,4)]
      console_output_def)

theorem image_error_generic_witness:
  "quota_error \<noteq> fetch_error
   \<and> snd (analyzePharmacyImage (runtime_with (Some ''k1'') (Inl quota_error) firefox_wording)
         ''iVBORw0KGgo='' ''image/png'') = Inl (new_Error ''Failed to process image lab analysis.'')
   \<and> snd (analyzePharmacyImage (runtime_with (Some ''k1'') (Inl fetch_error) firefox_wording)
         ''iVBORw0KGgo='' ''image/png'') = Inl (new_Error ''Failed to process image lab analysis.'')
   \<and> console_output (fst (analyzePharmacyImage
         (runtime_with (Some ''k1'') (Inl fetch_error) firefox_wording) ''iVBORw0KGgo='' ''image/png'')) =
       [''Image Analysis Error:'', ''TypeError: fetch failed'']"
  using image_error_generic [of
      "runtime_with (Some ''k1'') (Inl quota_error) firefox_wording"
      "''k1''" "''iVBORw0KGgo=''" "''image/png''" quota_error
      "runtime_with (Some ''k1'') (Inl fetch_error) firefox_wording"
      "''k1''" "''iVBORw0KGgo=''" "''image/png''" fetch_error]
  by (simp add: runtime_with_client runtime_with_reply runtime_with_key quota_error_def
      fetch_error_def console_output_def)

section \<open>getApiKey and createPharmacyChatSession\<close>

text \<open>
  C8. When \<^verbatim>\<open>process.env.API_KEY\<close> is absent (or empty), \<^verbatim>\<open>getApiKey\<close> returns the
  empty string and prints exactly one warning; it has no throwing path. Each of the three
  operations resolves the credential in its own call: whatever the environment, its run
  begins with what \<^verbatim>\<open>getApiKey\<close> does there, followed by the construction of its own
  client with the key just read; with the credential absent, that is the one warning of
  the run and a client with the empty key.
\<close>

theorem credential_missing:
  "(\<not> truthy (env_API_KEY rt) \<longrightarrow>
      getApiKey rt =
        ([ConsoleWarn ''API Key is missing. Ensure process.env.API_KEY is configured.''], [])
      \<and> warnings (fst (generateStudyNotes rt prefs)) =
          [''API Key is missing. Ensure process.env.API_KEY is configured.'']
      \<and> warnings (fst (analyzePharmacyImage rt base64Image mimeType)) =
          [''API Key is missing. Ensure process.env.API_KEY is configured.'']
      \<and> warnings (fst (createPharmacyChatSession rt)) =
          [''API Key is missing. Ensure process.env.API_KEY is configured.''])
   \<and> prefix (fst (getApiKey rt) @ [NewGoogleGenAI (snd (getApiKey rt))])
        (fst (generateStudyNotes rt prefs))
   \<and> prefix (fst (getApiKey rt) @ [NewGoogleGenAI (snd (getApiKey rt))])
        (fst (analyzePharmacyImage rt base64Image mimeType))
   \<and> prefix (fst (getApiKey rt) @ [NewGoogleGenAI (snd (getApiKey rt))])
        (fst (createPharmacyChatSession rt))"
proof (intro conjI impI)
  assume missing: "\<not> truthy (env_API_KEY rt)"
  show "getApiKey rt =
      ([ConsoleWarn ''API Key is missing. Ensure process.env.API_KEY is configured.''], [])"
    using missing by (rule getApiKey_missing)
  show "warnings (fst (generateStudyNotes rt prefs)) =
      [''API Key is missing. Ensure process.env.API_KEY is configured.'']"
    using one_warning [OF missing notes_starts_with_key [of rt prefs]] by simp
  show "warnings (fst (analyzePharmacyImage rt base64Image mimeType)) =
      [''API Key is missing. Ensure process.env.API_KEY is configured.'']"
    using one_warning [OF missing image_starts_with_key [of rt base64Image mimeType]] by simp
  show "warnings (fst (createPharmacyChatSession rt)) =
      [''API Key is missing. Ensure process.env.API_KEY is configured.'']"
    using one_warning [OF missing chat_starts_with_key [of rt]] by simp
next
  show "prefix (fst (getApiKey rt) @ [NewGoogleGenAI (snd (getApiKey rt))])
      (fst (generateStudyNotes rt prefs))"
    using notes_starts_with_key [of rt prefs] by (auto simp: prefix_def)
next
  show "prefix (fst (getApiKey rt) @ [NewGoogleGenAI (snd (getApiKey rt))])
      (fst (analyzePharmacyImage rt base64Image mimeType))"
    using image_starts_with_key [of rt base64Image mimeType] by (auto simp: prefix_def)
next
  show "prefix (fst (getApiKey rt) @ [NewGoogleGenAI (snd (getApiKey rt))])
      (fst (createPharmacyChatSession rt))"
    using chat_starts_with_key [of rt] by (auto simp: prefix_def)
qed

text \<open>
  With the variable undefined and with the variable empty; and two calls in different
  environments, each constructing its client with the key of its own environment.
\<close>

theorem credential_missing_witness:
  "getApiKey (runtime_with None (replies ''{}'') firefox_wording) =
     ([ConsoleWarn ''API Key is missing. Ensure process.env.API_KEY is configured.''], [])
   \<and> getApiKey (runtime_with (Some []) (replies ''{}'') firefox_wording) =
     ([ConsoleWarn ''API Key is missing. Ensure process.env.API_KEY is configured.''], [])
   \<and> warnings (fst (generateStudyNotes (runtime_with None (replies ''{}'') firefox_wording)
        sample_prefs)) = [''API Key is missing. Ensure process.env.API_KEY is configured.'']
   \<and> prefix [ConsoleWarn ''API Key is missing. Ensure process.env.API_KEY is configured.'',
        NewGoogleGenAI []]
       (fst (createPharmacyChatSession (runtime_with None (replies ''{}'') firefox_wording)))
   \<and> prefix [NewGoogleGenAI ''k1'']
       (fst (createPharmacyChatSession (runtime_with (Some ''k1'') (replies ''{}'') firefox_wording)))"
  using credential_missing [of "runtime_with None (replies ''{}'') firefox_wording" sample_prefs
      "[]" "[]"]
    credential_missing [of "runtime_with (Some []) (replies ''{}'') firefox_wording" sample_prefs
      "[]" "[]"]
    credential_missing [of "runtime_with (Some ''k1'') (replies ''{}'') firefox_wording" sample_prefs
      "[]" "[]"]
  by (simp add: runtime_with_env truthy_def runtime_with_key runtime_without_key)




end
